theory Spec2Isabelle
  imports Complex_Main
begin

section \<open>Scene graph\<close>

text \<open>
  An \<open>Object3D\<close> of the scene graph.  The \<open>uuid\<close> stands for the identity of the
  JavaScript object, so that \<open>===\<close> on objects is equality of these values.
  \<open>material\<close> is a reference into the store of materials (several meshes may share
  one material); the models loaded here carry standard materials, which have an
  emissive colour.  The mutable fields (\<open>visible\<close>, the emissive colour of a material)
  live in the state below.
\<close>

datatype object3d =
  Object3D (uuid: nat) (name: string) (isMesh: bool) (material: "nat option")
    (children: "object3d list")

text \<open>\<open>Object3D.traverse\<close>: the callback runs on the object, then on each child's subtree.\<close>

fun traverse :: "object3d \<Rightarrow> object3d list" where
  "traverse (Object3D u n m mt cs) = Object3D u n m mt cs # concat (map traverse cs)"

text \<open>\<open>String.prototype.includes\<close>: the search string occurs at some position.\<close>

fun startsWith :: "string \<Rightarrow> string \<Rightarrow> bool" where
  "startsWith s [] = True"
| "startsWith [] (c # cs) = False"
| "startsWith (a # as) (c # cs) = (a = c \<and> startsWith as cs)"

fun str_includes :: "string \<Rightarrow> string \<Rightarrow> bool" where
  "str_includes [] sub = (sub = [])"
| "str_includes (a # as) sub = (startsWith (a # as) sub \<or> str_includes as sub)"

text \<open>
  The chain \<open>obj, obj.parent, obj.parent.parent, ...\<close> inside the loaded model.
  \<open>path_to model obj\<close> is the path from the model down to \<open>obj\<close> (empty when
  \<open>obj\<close> is not in the tree) and the chain is its reversal.  Above the model there is
  only the scene itself, which no list of candidates built by a traversal of the model
  contains.
\<close>

fun first_path :: "object3d list list \<Rightarrow> object3d list" where
  "first_path [] = []"
| "first_path (p # ps) = (if p = [] then first_path ps else p)"

fun path_to :: "object3d \<Rightarrow> object3d \<Rightarrow> object3d list" where
  "path_to (Object3D u n m mt cs) obj =
     (if Object3D u n m mt cs = obj then [obj]
      else (case first_path (map (\<lambda>c. path_to c obj) cs) of
              [] \<Rightarrow> []
            | p # ps \<Rightarrow> Object3D u n m mt cs # p # ps))"

definition parent_chain :: "object3d \<Rightarrow> object3d \<Rightarrow> object3d list" where
  "parent_chain model obj = rev (path_to model obj)"

section \<open>Toggleable parts\<close>

record toggleMap =
  individuals :: "object3d list"
  groupMembers :: "object3d list"

definition buildToggleMap :: "object3d \<Rightarrow> toggleMap" where
  "buildToggleMap model =
     (let allSolid2 = filter (\<lambda>child. name child \<noteq> [] \<and> str_includes (name child) ''Solid2'')
                        (traverse model)
      in \<lparr> individuals =
             filter (\<lambda>child. name child = ''Solid2'' \<or> str_includes (name child) ''.001'') allSolid2,
           groupMembers =
             filter (\<lambda>child. \<not> (name child = ''Solid2'' \<or> str_includes (name child) ''.001''))
               allSolid2 \<rparr>)"

definition collectMeshes :: "object3d list \<Rightarrow> object3d list" where
  "collectMeshes objects = concat (map (\<lambda>obj. filter isMesh (traverse obj)) objects)"

definition findOwner :: "object3d \<Rightarrow> object3d \<Rightarrow> object3d list \<Rightarrow> object3d option" where
  "findOwner model mesh candidates = find (\<lambda>obj. obj \<in> set candidates) (parent_chain model mesh)"

text \<open>
  \<open>hoveredGroup\<close> holds \<open>null\<close> or an array, and the handler compares arrays by
  reference: \<open>getToggleGroup\<close> returns either the array \<open>toggleMap.groupMembers\<close>
  itself (\<open>Members\<close>) or a freshly allocated one-element array (\<open>Single\<close>), which is
  identical to no array seen before.
\<close>

datatype hovered = Single object3d | Members

fun differs :: "hovered option \<Rightarrow> hovered option \<Rightarrow> bool" where
  "differs None None = False"
| "differs (Some Members) (Some Members) = False"
| "differs a b = True"

fun group_objects :: "toggleMap \<Rightarrow> hovered \<Rightarrow> object3d list" where
  "group_objects tm (Single obj) = [obj]"
| "group_objects tm Members = groupMembers tm"

record state =
  visible :: "object3d \<Rightarrow> bool"
  emissive :: "nat \<Rightarrow> nat"
  hoveredGroup :: "hovered option"
  cursor :: string

definition highlightEmissive :: nat where
  "highlightEmissive = 3355443"

definition defaultEmissive :: nat where
  "defaultEmissive = 0"

definition setGroupEmissive :: "object3d list \<Rightarrow> nat \<Rightarrow> (nat \<Rightarrow> nat) \<Rightarrow> (nat \<Rightarrow> nat)" where
  "setGroupEmissive objects color em =
     fold (\<lambda>c e. if isMesh c then (case material c of None \<Rightarrow> e | Some mt \<Rightarrow> e(mt := color))
                  else e)
          (concat (map traverse objects)) em"

definition getToggleGroup :: "object3d \<Rightarrow> toggleMap \<Rightarrow> object3d \<Rightarrow> hovered option" where
  "getToggleGroup model tm mesh =
     (case findOwner model mesh (individuals tm) of
        Some indivOwner \<Rightarrow> Some (Single indivOwner)
      | None \<Rightarrow> (case findOwner model mesh (groupMembers tm) of
                   Some groupOwner \<Rightarrow> Some Members
                 | None \<Rightarrow> None))"

text \<open>
  \<open>raycaster.intersectObjects(meshes, false)\<close> belongs to the rendering library.  A ray
  query takes the visibility flags at the moment of the test and the list of meshes to
  test, and returns the objects hit, nearest first.  \<open>ray_through\<close> is the query of the
  library: the ray meets the objects \<open>ray\<close> in this order, and every listed mesh on the
  ray is reported whatever its visibility flag.
\<close>

type_synonym raycast = "(object3d \<Rightarrow> bool) \<Rightarrow> object3d list \<Rightarrow> object3d list"

definition ray_through :: "object3d list \<Rightarrow> raycast" where
  "ray_through ray vis meshes = filter (\<lambda>obj. obj \<in> set meshes) ray"

definition mousemove :: "raycast \<Rightarrow> object3d \<Rightarrow> toggleMap \<Rightarrow> state \<Rightarrow> state" where
  "mousemove rc model tm s =
     (let allToggleable = individuals tm @ groupMembers tm;
          meshes = collectMeshes (filter (visible s) allToggleable);
          hits = rc (visible s) meshes;
          newGroup = (case hits of [] \<Rightarrow> None | hit # _ \<Rightarrow> getToggleGroup model tm hit)
      in if differs newGroup (hoveredGroup s) then
           let e1 = (case hoveredGroup s of
                       None \<Rightarrow> emissive s
                     | Some g \<Rightarrow> setGroupEmissive (group_objects tm g) defaultEmissive (emissive s));
               e2 = (case newGroup of
                       None \<Rightarrow> e1
                     | Some g \<Rightarrow> setGroupEmissive (group_objects tm g) highlightEmissive e1)
           in s\<lparr> emissive := e2, hoveredGroup := newGroup,
                 cursor := (if newGroup \<noteq> None then ''pointer'' else []) \<rparr>
         else s)"

text \<open>The first loop of \<open>tryTogglePart\<close>: hidden parts are recorded and made visible.\<close>

fun force_visible ::
  "object3d list \<Rightarrow> (object3d \<Rightarrow> bool) \<Rightarrow> object3d list \<Rightarrow> (object3d \<Rightarrow> bool) \<times> object3d list"
where
  "force_visible [] vis wasHidden = (vis, wasHidden)"
| "force_visible (part # parts) vis wasHidden =
     (if \<not> vis part then force_visible parts (vis(part := True)) (wasHidden @ [part])
      else force_visible parts vis wasHidden)"

definition restore_hidden :: "object3d list \<Rightarrow> (object3d \<Rightarrow> bool) \<Rightarrow> (object3d \<Rightarrow> bool)" where
  "restore_hidden wasHidden vis = fold (\<lambda>part v. v(part := False)) wasHidden vis"

text \<open>The visibility flags in force while \<open>tryTogglePart\<close> runs its ray query.\<close>

definition ray_test_visibility :: "toggleMap \<Rightarrow> state \<Rightarrow> (object3d \<Rightarrow> bool)" where
  "ray_test_visibility tm s =
     fst (force_visible (individuals tm @ groupMembers tm) (visible s) [])"

definition clear_highlight :: "toggleMap \<Rightarrow> state \<Rightarrow> state" where
  "clear_highlight tm s =
     (case hoveredGroup s of
        None \<Rightarrow> s
      | Some g \<Rightarrow> s\<lparr> emissive := setGroupEmissive (group_objects tm g) defaultEmissive (emissive s),
                     hoveredGroup := None \<rparr>)"

definition tryTogglePart :: "raycast \<Rightarrow> object3d \<Rightarrow> toggleMap \<Rightarrow> state \<Rightarrow> bool \<times> state" where
  "tryTogglePart rc model tm s =
     (let allToggleable = individuals tm @ groupMembers tm;
          forced = force_visible allToggleable (visible s) [];
          meshes = collectMeshes allToggleable;
          hits = rc (fst forced) meshes;
          s1 = s\<lparr> visible := restore_hidden (snd forced) (fst forced) \<rparr>
      in case hits of
           [] \<Rightarrow> (False, s1)
         | hitMesh # _ \<Rightarrow>
             (case findOwner model hitMesh (individuals tm) of
                Some indivOwner \<Rightarrow>
                  (True, clear_highlight tm
                     (s1\<lparr> visible := (visible s1)(indivOwner := \<not> visible s1 indivOwner) \<rparr>))
              | None \<Rightarrow>
                  (case findOwner model hitMesh (groupMembers tm) of
                     Some groupOwner \<Rightarrow>
                       (let newVis = \<not> visible s1 groupOwner
                        in (True, clear_highlight tm
                              (s1\<lparr> visible := fold (\<lambda>m v. v(m := newVis)) (groupMembers tm)
                                                   (visible s1) \<rparr>)))
                   | None \<Rightarrow> (False, s1))))"

text \<open>
  Pointer events in the order they arrive, each with the ray query of its pointer
  position.  (When a click is not handled the click handler goes on to cycle the camera
  view, which touches none of the fields of this state.)
\<close>

datatype pointer_event = Click raycast | Move raycast

fun pointer_events :: "pointer_event list \<Rightarrow> object3d \<Rightarrow> toggleMap \<Rightarrow> state \<Rightarrow> state" where
  "pointer_events [] model tm s = s"
| "pointer_events (Click rc # evs) model tm s =
     pointer_events evs model tm (snd (tryTogglePart rc model tm s))"
| "pointer_events (Move rc # evs) model tm s =
     pointer_events evs model tm (mousemove rc model tm s)"

text \<open>The objects a click would toggle: the unit that owns the nearest mesh hit.\<close>

definition resolved_unit :: "raycast \<Rightarrow> object3d \<Rightarrow> toggleMap \<Rightarrow> state \<Rightarrow> object3d list" where
  "resolved_unit rc model tm s =
     (case rc (ray_test_visibility tm s) (collectMeshes (individuals tm @ groupMembers tm)) of
        [] \<Rightarrow> []
      | hitMesh # _ \<Rightarrow> (case getToggleGroup model tm hitMesh of
                          None \<Rightarrow> []
                        | Some g \<Rightarrow> group_objects tm g))"

text \<open>A small model: one individual part, two group members (one of them a node with a
  mesh below it that shares the material of the other), and an untoggleable mesh.\<close>

definition solid2 :: object3d where
  "solid2 = Object3D 1 ''Solid2'' True (Some 1) []"

definition panelA :: object3d where
  "panelA = Object3D 2 ''Solid2_panel_A'' True (Some 2) []"

definition panelB_face :: object3d where
  "panelB_face = Object3D 4 ''face'' True (Some 2) []"

definition panelB :: object3d where
  "panelB = Object3D 3 ''Solid2_panel_B'' False None [panelB_face]"

definition fan :: object3d where
  "fan = Object3D 5 ''Noctua-200mm'' True (Some 3) []"

definition demo_model :: object3d where
  "demo_model = Object3D 0 ''case'' False None [solid2, panelA, panelB, fan]"

definition initial_state :: state where
  "initial_state = \<lparr> visible = (\<lambda>obj. True), emissive = (\<lambda>mt. defaultEmissive),
                      hoveredGroup = None, cursor = [] \<rparr>"

definition solid2_hidden :: state where
  "solid2_hidden = initial_state\<lparr> visible := (visible initial_state)(solid2 := False) \<rparr>"

definition hovering_solid2 :: state where
  "hovering_solid2 = mousemove (ray_through [solid2]) demo_model (buildToggleMap demo_model) initial_state"

text \<open>All members of the group carry the same visibility flag.\<close>

definition group_uniform :: "toggleMap \<Rightarrow> (object3d \<Rightarrow> bool) \<Rightarrow> bool" where
  "group_uniform tm vis = (\<forall>a \<in> set (groupMembers tm). \<forall>b \<in> set (groupMembers tm). vis a = vis b)"

section \<open>Hotspot annotations\<close>

record hotspot =
  match :: string
  title :: string
  desc :: string

definition HOTSPOTS :: "hotspot list" where
  "HOTSPOTS =
    [\<lparr> match = ''ANGL-PAR-OSH-001_REV-G'', title = ''SIDE PANEL'', desc = ''Aluminium enclosure'' \<rparr>,
     \<lparr> match = ''ANGL-PAR-OSH-002_REV-G'', title = ''TOP PANEL'', desc = ''CNC ventilation'' \<rparr>,
     \<lparr> match = ''Motherboard Mini-ATX generic'', title = ''MOTHERBOARD'', desc = ''ASUS Strix B850-I'' \<rparr>,
     \<lparr> match = ''RTX 5090'', title = ''GPU'', desc = ''RTX 5090 Inno3D iChill'' \<rparr>,
     \<lparr> match = ''SF1000_simplified'', title = ''PSU'', desc = ''Corsair SF1000'' \<rparr>,
     \<lparr> match = ''Noctua-200mm'', title = ''FAN'', desc = ''Noctua 200 mm'' \<rparr>,
     \<lparr> match = ''Alphacool radiator 200mm'', title = ''RADIATOR'', desc = ''Alphacool 200 mm'' \<rparr>,
     \<lparr> match = ''DDR5 module'', title = ''MEMORY'', desc = ''DDR5 module'' \<rparr>,
     \<lparr> match = ''SSD NVMe M2 2280 Generic'', title = ''STORAGE'', desc = ''NVMe M.2 2280 SSD'' \<rparr>,
     \<lparr> match = ''Power button assembly'', title = ''POWER BUTTON'', desc = ''Illuminated momentary'' \<rparr>,
     \<lparr> match = ''Riser_AG-P5-33VV-v.3_MOUNTED'', title = ''RISER CABLE'', desc = ''PCIe 5.0 x16'' \<rparr>]"

text \<open>A length of a style property: not set, \<open>auto\<close>, or a number of pixels.\<close>

datatype css_length = Unset | Auto | Px real

text \<open>
  A hotspot instance with the parts of its two DOM elements that the code writes: the
  marker's \<open>style.opacity\<close>, \<open>style.left\<close> and \<open>style.top\<close>, and the tag card's
  classes \<open>visible\<close> and \<open>left\<close> and its \<open>style.left\<close>, \<open>style.right\<close>, \<open>style.top\<close>.
\<close>

record hotspotInstance =
  data :: hotspot
  object :: object3d
  "open" :: bool
  marker_opacity :: string
  marker_left :: css_length
  marker_top :: css_length
  tag_visible :: bool
  tag_left_class :: bool
  tag_left :: css_length
  tag_right :: css_length
  tag_top :: css_length

text \<open>The two traversals of \<open>initHotspots\<close> that look for the target of one hotspot.\<close>

definition exact_match :: "object3d \<Rightarrow> string \<Rightarrow> object3d option" where
  "exact_match model m =
     fold (\<lambda>child target. if target = None \<and> name child = m then Some child else target)
          (traverse model) None"

definition includes_match :: "object3d \<Rightarrow> string \<Rightarrow> object3d option" where
  "includes_match model m =
     fold (\<lambda>child target.
             if target = None \<and> name child \<noteq> [] \<and> str_includes (name child) m then Some child
             else target)
          (traverse model) None"

definition resolve_target :: "object3d \<Rightarrow> string \<Rightarrow> object3d option" where
  "resolve_target model m =
     (case exact_match model m of
        Some target \<Rightarrow> Some target
      | None \<Rightarrow> includes_match model m)"

definition new_instance :: "hotspot \<Rightarrow> object3d \<Rightarrow> hotspotInstance" where
  "new_instance hs target =
     \<lparr> data = hs, object = target, open = False, marker_opacity = [], marker_left = Unset,
       marker_top = Unset, tag_visible = False, tag_left_class = False, tag_left = Unset,
       tag_right = Unset, tag_top = Unset \<rparr>"

definition initHotspots :: "hotspot list \<Rightarrow> object3d \<Rightarrow> hotspotInstance list" where
  "initHotspots hotspots model =
     fold (\<lambda>hs hotspotInstances.
             case resolve_target model (match hs) of
               None \<Rightarrow> hotspotInstances
             | Some target \<Rightarrow> hotspotInstances @ [new_instance hs target])
          hotspots []"

text \<open>The click handler of the marker created for the hotspot \<open>hs\<close>.\<close>

definition marker_click :: "hotspot \<Rightarrow> hotspotInstance list \<Rightarrow> hotspotInstance list" where
  "marker_click hs hotspotInstances =
     (case find (\<lambda>h. data h = hs) hotspotInstances of
        None \<Rightarrow> hotspotInstances
      | Some inst \<Rightarrow>
          map (\<lambda>h. if h = inst then h\<lparr> open := \<not> open h, tag_visible := \<not> open h \<rparr> else h)
              hotspotInstances)"



section \<open>Camera views, zoom and the keyboard\<close>

definition viewList :: "string list" where
  "viewList = [''Front'', ''Right'', ''Rear'', ''Left'', ''Isometric'']"

definition viewAngles :: "string \<Rightarrow> real option" where
  "viewAngles v =
     (if v = ''Front'' then Some 0
      else if v = ''Right'' then Some (- pi / 3)
      else if v = ''Rear'' then Some pi
      else if v = ''Left'' then Some (pi / 3)
      else if v = ''Isometric'' then Some (pi / 4)
      else None)"

definition ISO_ELEVATION :: real where
  "ISO_ELEVATION = 55 / 100"

definition DEFAULT_ELEVATION :: real where
  "DEFAULT_ELEVATION = 15 / 100"

definition FRUSTUM_DEFAULT :: real where
  "FRUSTUM_DEFAULT = 22 / 10"

text \<open>
  The part of the viewer's state that the keyboard handler reads and writes.
  \<open>modelHeight\<close> and \<open>modelCenterY\<close> are the height and the vertical centre of the model's
  bounding box, fixed when the model is loaded.
\<close>

record viewer =
  viewIndex :: nat
  targetAzimuth :: real
  targetElevation :: real
  zoomed :: bool
  targetFrustum :: real
  targetOrbitY :: real
  modelHeight :: real
  modelCenterY :: real
  exploded :: bool
  explodeT :: real
  hotspotInstances :: "hotspotInstance list"

text \<open>\<open>Array.prototype.indexOf\<close>, with the list length standing for \<open>-1\<close> (not found).\<close>

fun indexOf :: "'a list \<Rightarrow> 'a \<Rightarrow> nat" where
  "indexOf [] a = 0"
| "indexOf (b # bs) a = (if b = a then 0 else Suc (indexOf bs a))"

definition setView :: "string \<Rightarrow> viewer \<Rightarrow> viewer" where
  "setView v s =
     (case viewAngles v of
        None \<Rightarrow> s
      | Some a \<Rightarrow> s\<lparr> targetAzimuth := a,
                     targetElevation := (if v = ''Isometric'' then ISO_ELEVATION
                                         else DEFAULT_ELEVATION),
                     viewIndex := indexOf viewList v \<rparr>)"

definition toggleZoom :: "viewer \<Rightarrow> viewer" where
  "toggleZoom s =
     (let z = \<not> zoomed s
      in s\<lparr> zoomed := z,
             targetFrustum := (if z then modelHeight s / (95 / 100) else FRUSTUM_DEFAULT),
             targetOrbitY := (if z then modelCenterY s else modelCenterY s) \<rparr>)"

definition keydown :: "string \<Rightarrow> viewer \<Rightarrow> viewer" where
  "keydown key s =
     (if key = ''ArrowRight'' then
        (let i = (viewIndex s + 1) mod length viewList
         in setView (viewList ! i) (s\<lparr> viewIndex := i \<rparr>))
      else if key = ''ArrowLeft'' then
        (let i = (viewIndex s + length viewList - 1) mod length viewList
         in setView (viewList ! i) (s\<lparr> viewIndex := i \<rparr>))
      else if key = ''z'' \<or> key = ''Z'' \<or> key = ''ArrowUp'' \<or> key = ''ArrowDown'' then
        toggleZoom s
      else if key = ''e'' \<or> key = ''E'' then
        (let e = \<not> exploded s
         in s\<lparr> exploded := e,
                hotspotInstances :=
                  map (\<lambda>inst. inst\<lparr> open := e, tag_visible := e \<rparr>) (hotspotInstances s) \<rparr>)
      else s)"

text \<open>A model with a graphics card: a bracket and a cover whose names contain the card's
  name come before and after the node named exactly \<open>RTX 5090\<close>.\<close>

definition gpu_bracket :: object3d where
  "gpu_bracket = Object3D 11 ''RTX 5090 bracket'' True (Some 4) []"

definition gpu :: object3d where
  "gpu = Object3D 12 ''RTX 5090'' False None [Object3D 13 ''RTX 5090 cover'' True (Some 4) []]"

definition psu :: object3d where
  "psu = Object3D 14 ''SF1000_simplified_v2'' True (Some 5) []"

definition gpu_model :: object3d where
  "gpu_model = Object3D 10 ''assembly'' False None [gpu_bracket, gpu, psu]"

definition two_hotspots :: "hotspotInstance list" where
  "two_hotspots =
     [(new_instance \<lparr> match = ''RTX 5090'', title = ''GPU'', desc = ''RTX 5090 Inno3D iChill'' \<rparr> gpu)
        \<lparr> open := True, tag_visible := True \<rparr>,
      new_instance \<lparr> match = ''SF1000_simplified'', title = ''PSU'', desc = ''Corsair SF1000'' \<rparr> psu]"

definition demo_viewer :: viewer where
  "demo_viewer =
     \<lparr> viewIndex = 0, targetAzimuth = 0, targetElevation = DEFAULT_ELEVATION, zoomed = False,
       targetFrustum = FRUSTUM_DEFAULT, targetOrbitY = 1 / 2, modelHeight = 1, modelCenterY = 1 / 2,
       exploded = False, explodeT = 0, hotspotInstances = two_hotspots \<rparr>"

section \<open>Explode view\<close>




























section \<open>Camera and projection\<close>





datatype cameraType = Orthographic | Perspective

fun projected_z :: "cameraType \<Rightarrow> real \<Rightarrow> real \<Rightarrow> real \<Rightarrow> real" where
  "projected_z Perspective near far depth =
     ((far + near) * depth - 2 * far * near) / ((far - near) * depth)"
| "projected_z Orthographic near far depth = (2 * depth - (far + near)) / (far - near)"











section \<open>Context transitions\<close>

text \<open>The presets in their order, by name; their other fields are read only by
  \<open>applyContextNow\<close>, which copies them into the scene.\<close>

definition contexts :: "string list" where
  "contexts = [''Scandinavian'', ''Marble'', ''Minimal'', ''Walnut'', ''Steel'', ''Terracotta'',
               ''Noir'', ''Sage'', ''Blush'', ''Gallery'']"

definition SCROLL_PER_CONTEXT :: real where
  "SCROLL_PER_CONTEXT = 400"

text \<open>The wheel handler, for \<open>n\<close> presets.\<close>

definition wheel :: "nat \<Rightarrow> real \<Rightarrow> real \<Rightarrow> real" where
  "wheel n deltaY scrollPosition =
     (let delta = deltaY / SCROLL_PER_CONTEXT
      in max 0 (min (real n - 1) (scrollPosition + delta)))"

text \<open>
  The inputs that move the scroll position: a wheel event with its \<open>deltaY\<close>, or a click
  on the dot of preset \<open>i\<close>.  One dot is created for each preset, so a click on a dot
  \<open>i\<close> beyond the presets is not an input that can arrive: it is the value \<open>None\<close>.
\<close>

datatype scroll_input = Wheel real | DotClick nat

fun handle_input :: "nat \<Rightarrow> scroll_input \<Rightarrow> real \<Rightarrow> real option" where
  "handle_input n (Wheel deltaY) scrollPosition = Some (wheel n deltaY scrollPosition)"
| "handle_input n (DotClick i) scrollPosition = (if i < n then Some (real i) else None)"

fun scroll_inputs :: "nat \<Rightarrow> scroll_input list \<Rightarrow> real \<Rightarrow> real option" where
  "scroll_inputs n [] scrollPosition = Some scrollPosition"
| "scroll_inputs n (inp # inps) scrollPosition =
     (case handle_input n inp scrollPosition of
        None \<Rightarrow> None
      | Some p \<Rightarrow> scroll_inputs n inps p)"

definition fromIdx :: "real \<Rightarrow> int" where
  "fromIdx scrollPosition = \<lfloor>scrollPosition\<rfloor>"

definition toIdx :: "nat \<Rightarrow> real \<Rightarrow> int" where
  "toIdx n scrollPosition = min (fromIdx scrollPosition + 1) (int n - 1)"

definition progress :: "real \<Rightarrow> real" where
  "progress scrollPosition = scrollPosition - of_int (fromIdx scrollPosition)"

text \<open>
  What the render loop does with the scroll position in one frame, as the sequence of
  its effects: the dots are updated, then either both presets are rendered into the two
  offscreen targets and composited by the wipe shader, or one preset is applied and the
  composer renders with full post-processing.
\<close>

datatype render_target = RtA | RtB

datatype render_step =
    UpdateDots int
  | ApplyContextNow int
  | RenderScene render_target
  | RenderWipe real nat
  | ComposerRender

definition animate :: "nat \<Rightarrow> nat \<Rightarrow> real \<Rightarrow> render_step list" where
  "animate n wipeDirection scrollPosition =
     (let f = fromIdx scrollPosition;
          g = toIdx n scrollPosition;
          t = progress scrollPosition
      in UpdateDots (round scrollPosition) #
         (if t > 1 / 1000 \<and> f \<noteq> g then
            [ApplyContextNow f, RenderScene RtA, ApplyContextNow g, RenderScene RtB,
             RenderWipe t wipeDirection]
          else [ApplyContextNow f, ComposerRender]))"

section \<open>Properties of the pointer interaction\<close>

lemma force_visible_spec:
  "force_visible parts vis acc = (vis', wh) \<Longrightarrow>
   \<exists>h. wh = acc @ h \<and> (\<forall>p. vis' p = (vis p \<or> p \<in> set h)) \<and> (\<forall>p \<in> set h. \<not> vis p)
       \<and> (\<forall>p \<in> set parts. vis' p)"
proof (induction parts arbitrary: vis acc)
  case Nil
  then show ?case by simp
next
  case (Cons part parts)
  show ?case
  proof (cases "vis part")
    case True
    with Cons.prems have "force_visible parts vis acc = (vis', wh)" by simp
    from Cons.IH [OF this] True show ?thesis by auto
  next
    case False
    with Cons.prems have "force_visible parts (vis(part := True)) (acc @ [part]) = (vis', wh)"
      by simp
    from Cons.IH [OF this] obtain h where
      h: "wh = (acc @ [part]) @ h" "\<forall>p. vis' p = ((vis(part := True)) p \<or> p \<in> set h)"
         "\<forall>p \<in> set h. \<not> (vis(part := True)) p" "\<forall>p \<in> set parts. vis' p"
      by blast
    have "wh = acc @ (part # h)" using h(1) by simp
    moreover have "\<forall>p. vis' p = (vis p \<or> p \<in> set (part # h))" using h(2) by auto
    moreover have "\<forall>p \<in> set (part # h). \<not> vis p" using h(3) False by (auto split: if_splits)
    moreover have "\<forall>p \<in> set (part # parts). vis' p" using h(2) h(4) by auto
    ultimately show ?thesis by blast
  qed
qed

lemma restore_hidden_apply:
  "restore_hidden wh vis p = (if p \<in> set wh then False else vis p)"
  unfolding restore_hidden_def by (induction wh arbitrary: vis) auto

lemma restore_after_force:
  "restore_hidden (snd (force_visible parts vis [])) (fst (force_visible parts vis [])) = vis"
proof -
  obtain vis' wh where f: "force_visible parts vis [] = (vis', wh)" by (cases "force_visible parts vis []")
  from force_visible_spec [OF f] obtain h where
    h: "wh = h" "\<forall>p. vis' p = (vis p \<or> p \<in> set h)" "\<forall>p \<in> set h. \<not> vis p" by auto
  have "restore_hidden wh vis' p = vis p" for p
    using h by (auto simp: restore_hidden_apply)
  then show ?thesis using f by auto
qed

lemma tryTogglePart_restored:
  "tryTogglePart rc model tm s =
     (case rc (ray_test_visibility tm s) (collectMeshes (individuals tm @ groupMembers tm)) of
        [] \<Rightarrow> (False, s)
      | hitMesh # _ \<Rightarrow>
          (case findOwner model hitMesh (individuals tm) of
             Some indivOwner \<Rightarrow>
               (True, clear_highlight tm (s\<lparr> visible := (visible s)(indivOwner := \<not> visible s indivOwner) \<rparr>))
           | None \<Rightarrow>
               (case findOwner model hitMesh (groupMembers tm) of
                  Some groupOwner \<Rightarrow>
                    (True, clear_highlight tm
                       (s\<lparr> visible := fold (\<lambda>m v. v(m := \<not> visible s groupOwner)) (groupMembers tm)
                                          (visible s) \<rparr>))
                | None \<Rightarrow> (False, s))))"
  by (simp add: tryTogglePart_def ray_test_visibility_def restore_after_force Let_def
           split: list.splits option.splits)

lemma visible_clear_highlight [simp]: "visible (clear_highlight tm s) = visible s"
  by (simp add: clear_highlight_def split: option.splits)

lemma fold_assign_apply:
  "fold (\<lambda>m v. v(m := b)) ms vis p = (if p \<in> set ms then b else vis p)"
  by (induction ms arbitrary: vis) auto

lemma findOwner_mem: "findOwner model mesh cs = Some obj \<Longrightarrow> obj \<in> set cs"
  by (auto simp: findOwner_def find_Some_iff)

lemma ray_test_all_visible:
  "p \<in> set (individuals tm @ groupMembers tm) \<Longrightarrow> ray_test_visibility tm s p"
proof -
  assume p: "p \<in> set (individuals tm @ groupMembers tm)"
  obtain vis' wh where f: "force_visible (individuals tm @ groupMembers tm) (visible s) [] = (vis', wh)"
    by (cases "force_visible (individuals tm @ groupMembers tm) (visible s) []")
  from force_visible_spec [OF f] p have "vis' p" by blast
  then show ?thesis by (simp add: ray_test_visibility_def f)
qed

lemma tryTogglePart_frame:
  assumes "p \<notin> set (resolved_unit rc model tm s)"
  shows "visible (snd (tryTogglePart rc model tm s)) p = visible s p"
proof (cases "rc (ray_test_visibility tm s) (collectMeshes (individuals tm @ groupMembers tm))")
  case Nil
  then show ?thesis by (simp add: tryTogglePart_restored)
next
  case (Cons hitMesh rest)
  show ?thesis
  proof (cases "findOwner model hitMesh (individuals tm)")
    case (Some indivOwner)
    with Cons assms have "p \<noteq> indivOwner"
      by (simp add: resolved_unit_def getToggleGroup_def)
    with Cons Some show ?thesis by (simp add: tryTogglePart_restored)
  next
    case None
    show ?thesis
    proof (cases "findOwner model hitMesh (groupMembers tm)")
      case (Some groupOwner)
      with Cons None assms have "p \<notin> set (groupMembers tm)"
        by (simp add: resolved_unit_def getToggleGroup_def)
      with Cons None Some show ?thesis by (simp add: tryTogglePart_restored fold_assign_apply)
    next
      case none: None
      with Cons None show ?thesis by (simp add: tryTogglePart_restored)
    qed
  qed
qed

text \<open>
  Claim C5.  Every call to \<open>tryTogglePart\<close> runs its ray query with every toggleable
  part visible, and restoring the recorded parts gives back exactly the visibility flags
  from before the call, before anything is toggled.  After the call every object outside
  the resolved toggle unit has the visibility it had before.  A hidden part is still hit:
  when the nearest mesh belongs to a hidden individual the click is handled and shows the
  part again, and when it belongs to a hidden group owner the click is handled and shows
  every member of the group.
\<close>

theorem tryTogglePart_scoped_visibility:
  "(\<forall>p \<in> set (individuals tm @ groupMembers tm). ray_test_visibility tm s p)
   \<and> restore_hidden (snd (force_visible (individuals tm @ groupMembers tm) (visible s) []))
        (ray_test_visibility tm s) = visible s
   \<and> (\<forall>p. p \<notin> set (resolved_unit rc model tm s) \<longrightarrow>
         visible (snd (tryTogglePart rc model tm s)) p = visible s p)
   \<and> (\<forall>hitMesh rest p.
         rc (ray_test_visibility tm s) (collectMeshes (individuals tm @ groupMembers tm)) = hitMesh # rest
         \<and> findOwner model hitMesh (individuals tm) = Some p \<and> \<not> visible s p \<longrightarrow>
         fst (tryTogglePart rc model tm s) \<and> visible (snd (tryTogglePart rc model tm s)) p)
   \<and> (\<forall>hitMesh rest g.
         rc (ray_test_visibility tm s) (collectMeshes (individuals tm @ groupMembers tm)) = hitMesh # rest
         \<and> findOwner model hitMesh (individuals tm) = None
         \<and> findOwner model hitMesh (groupMembers tm) = Some g \<and> \<not> visible s g \<longrightarrow>
         fst (tryTogglePart rc model tm s)
         \<and> (\<forall>m \<in> set (groupMembers tm). visible (snd (tryTogglePart rc model tm s)) m))"
proof (intro conjI)
  show "\<forall>p \<in> set (individuals tm @ groupMembers tm). ray_test_visibility tm s p"
    using ray_test_all_visible by blast
  show "restore_hidden (snd (force_visible (individuals tm @ groupMembers tm) (visible s) []))
        (ray_test_visibility tm s) = visible s"
    by (simp add: ray_test_visibility_def restore_after_force)
  show "\<forall>p. p \<notin> set (resolved_unit rc model tm s) \<longrightarrow>
         visible (snd (tryTogglePart rc model tm s)) p = visible s p"
    using tryTogglePart_frame by blast
  show "\<forall>hitMesh rest p.
         rc (ray_test_visibility tm s) (collectMeshes (individuals tm @ groupMembers tm)) = hitMesh # rest
         \<and> findOwner model hitMesh (individuals tm) = Some p \<and> \<not> visible s p \<longrightarrow>
         fst (tryTogglePart rc model tm s) \<and> visible (snd (tryTogglePart rc model tm s)) p"
    by (simp add: tryTogglePart_restored)
  show "\<forall>hitMesh rest g.
         rc (ray_test_visibility tm s) (collectMeshes (individuals tm @ groupMembers tm)) = hitMesh # rest
         \<and> findOwner model hitMesh (individuals tm) = None
         \<and> findOwner model hitMesh (groupMembers tm) = Some g \<and> \<not> visible s g \<longrightarrow>
         fst (tryTogglePart rc model tm s)
         \<and> (\<forall>m \<in> set (groupMembers tm). visible (snd (tryTogglePart rc model tm s)) m)"
    by (simp add: tryTogglePart_restored fold_assign_apply)
qed


lemma buildToggleMap_demo:
  "buildToggleMap demo_model = \<lparr> individuals = [solid2], groupMembers = [panelA, panelB] \<rparr>"
  by code_simp

lemma demo_distinct:
  "solid2 \<noteq> panelA" "solid2 \<noteq> panelB" "panelA \<noteq> panelB" "panelA \<noteq> solid2" "panelB \<noteq> solid2"
  "panelB \<noteq> panelA"
  by (simp_all add: solid2_def panelA_def panelB_def)

lemma collectMeshes_demo: "collectMeshes [solid2, panelA, panelB] = [solid2, panelA, panelB_face]"
  by (simp add: collectMeshes_def solid2_def panelA_def panelB_def panelB_face_def)

lemma parent_chain_solid2: "parent_chain demo_model solid2 = [solid2, demo_model]"
  by (simp add: parent_chain_def demo_model_def solid2_def)

lemma parent_chain_panelB_face: "parent_chain demo_model panelB_face = [panelB_face, panelB, demo_model]"
  by (simp add: parent_chain_def demo_model_def solid2_def panelA_def panelB_def panelB_face_def)

theorem tryTogglePart_scoped_visibility_witness:
  "fst (tryTogglePart (ray_through [solid2, fan]) demo_model (buildToggleMap demo_model) solid2_hidden)
   \<and> visible (snd (tryTogglePart (ray_through [solid2, fan]) demo_model (buildToggleMap demo_model)
                     solid2_hidden)) solid2
   \<and> ray_test_visibility (buildToggleMap demo_model) solid2_hidden solid2"
proof -
  let ?tm = "buildToggleMap demo_model"
  have rt: "ray_test_visibility ?tm solid2_hidden solid2"
    by (simp add: buildToggleMap_demo ray_test_visibility_def solid2_hidden_def initial_state_def
                  demo_distinct)
  have hits: "ray_through [solid2, fan] (ray_test_visibility ?tm solid2_hidden)
                (collectMeshes (individuals ?tm @ groupMembers ?tm)) = solid2 # []"
    by (simp add: buildToggleMap_demo collectMeshes_demo ray_through_def)
       (simp add: fan_def solid2_def panelA_def panelB_face_def)
  have own: "findOwner demo_model solid2 (individuals ?tm) = Some solid2"
    by (simp add: buildToggleMap_demo findOwner_def parent_chain_solid2)
  have hid: "\<not> visible solid2_hidden solid2"
    by (simp add: solid2_hidden_def)
  from tryTogglePart_scoped_visibility [of ?tm solid2_hidden "ray_through [solid2, fan]" demo_model]
    hits own hid rt
  show ?thesis by blast
qed

lemma buildToggleMap_disjoint:
  "set (individuals (buildToggleMap model)) \<inter> set (groupMembers (buildToggleMap model)) = {}"
  by (auto simp: buildToggleMap_def Let_def)

lemma visible_mousemove: "visible (mousemove rc model tm s) = visible s"
  by (simp add: mousemove_def Let_def)

lemma toggle_individual_keeps_group:
  assumes "set (individuals tm) \<inter> set (groupMembers tm) = {}"
    and "rc (ray_test_visibility tm s) (collectMeshes (individuals tm @ groupMembers tm)) = hitMesh # rest"
    and "findOwner model hitMesh (individuals tm) = Some p"
    and "m \<in> set (groupMembers tm)"
  shows "visible (snd (tryTogglePart rc model tm s)) m = visible s m"
proof -
  from assms(3) have "p \<in> set (individuals tm)" by (rule findOwner_mem)
  with assms(1,4) have "m \<noteq> p" by auto
  with assms(2,3) show ?thesis by (simp add: tryTogglePart_restored)
qed

lemma toggle_group_assigns_all:
  assumes "rc (ray_test_visibility tm s) (collectMeshes (individuals tm @ groupMembers tm)) = hitMesh # rest"
    and "findOwner model hitMesh (individuals tm) = None"
    and "findOwner model hitMesh (groupMembers tm) = Some g"
    and "m \<in> set (groupMembers tm)"
  shows "visible (snd (tryTogglePart rc model tm s)) m = (\<not> visible s g)"
  using assms by (simp add: tryTogglePart_restored fold_assign_apply)

lemma tryTogglePart_keeps_uniform:
  assumes dj: "set (individuals tm) \<inter> set (groupMembers tm) = {}"
    and un: "\<forall>a \<in> set (groupMembers tm). \<forall>b \<in> set (groupMembers tm). visible s a = visible s b"
    and a: "a \<in> set (groupMembers tm)" and b: "b \<in> set (groupMembers tm)"
  shows "visible (snd (tryTogglePart rc model tm s)) a = visible (snd (tryTogglePart rc model tm s)) b"
proof (cases "rc (ray_test_visibility tm s) (collectMeshes (individuals tm @ groupMembers tm))")
  case Nil
  then have "snd (tryTogglePart rc model tm s) = s" by (simp add: tryTogglePart_restored)
  with un a b show ?thesis by metis
next
  case (Cons hitMesh rest)
  show ?thesis
  proof (cases "findOwner model hitMesh (individuals tm)")
    case (Some p)
    from toggle_individual_keeps_group [where rc = rc, OF dj Cons Some a]
         toggle_individual_keeps_group [where rc = rc, OF dj Cons Some b] un a b
    show ?thesis by metis
  next
    case None
    show ?thesis
    proof (cases "findOwner model hitMesh (groupMembers tm)")
      case (Some g)
      from toggle_group_assigns_all [where rc = rc, OF Cons None Some a]
           toggle_group_assigns_all [where rc = rc, OF Cons None Some b]
      show ?thesis by simp
    next
      case none: None
      with Cons None have "snd (tryTogglePart rc model tm s) = s"
        by (simp add: tryTogglePart_restored)
      with un a b show ?thesis by metis
    qed
  qed
qed

lemma tryTogglePart_group_uniform:
  assumes dj: "set (individuals tm) \<inter> set (groupMembers tm) = {}"
    and un: "group_uniform tm (visible s)"
  shows "group_uniform tm (visible (snd (tryTogglePart rc model tm s)))"
  unfolding group_uniform_def
proof (intro ballI)
  fix a b assume a: "a \<in> set (groupMembers tm)" and b: "b \<in> set (groupMembers tm)"
  from un have un': "\<forall>a \<in> set (groupMembers tm). \<forall>b \<in> set (groupMembers tm). visible s a = visible s b"
    by (simp only: group_uniform_def)
  show "visible (snd (tryTogglePart rc model tm s)) a = visible (snd (tryTogglePart rc model tm s)) b"
    by (rule tryTogglePart_keeps_uniform [where rc = rc, OF dj un' a b])
qed

lemma pointer_events_group_uniform:
  assumes dj: "set (individuals tm) \<inter> set (groupMembers tm) = {}"
  shows "group_uniform tm (visible s) \<Longrightarrow> group_uniform tm (visible (pointer_events evs model tm s))"
proof (induction evs arbitrary: s)
  case Nil
  then show ?case by simp
next
  case (Cons ev evs)
  show ?case
  proof (cases ev)
    case (Click rc)
    have "group_uniform tm (visible (snd (tryTogglePart rc model tm s)))"
      by (rule tryTogglePart_group_uniform [OF dj Cons.prems])
    from Cons.IH [OF this] Click show ?thesis by simp
  next
    case (Move rc)
    have "group_uniform tm (visible (mousemove rc model tm s))"
      using Cons.prems by (simp add: visible_mousemove)
    from Cons.IH [OF this] Move show ?thesis by simp
  qed
qed

text \<open>
  Claim C6.  Starting from a state in which everything is visible, after any sequence of
  clicks and pointer moves all members of the group have the same visibility.  A click
  that resolves to the group gives every member the negation of the owner's flag, and a
  click that resolves to an individual part leaves the flag of every group member as it
  was.
\<close>

theorem group_members_share_visibility:
  "((\<forall>obj. visible s0 obj) \<longrightarrow>
      (\<forall>a \<in> set (groupMembers (buildToggleMap model)). \<forall>b \<in> set (groupMembers (buildToggleMap model)).
         visible (pointer_events evs model (buildToggleMap model) s0) a
         = visible (pointer_events evs model (buildToggleMap model) s0) b))
   \<and> (\<forall>hitMesh rest g m.
        rc (ray_test_visibility (buildToggleMap model) s)
           (collectMeshes (individuals (buildToggleMap model) @ groupMembers (buildToggleMap model)))
          = hitMesh # rest
        \<and> findOwner model hitMesh (individuals (buildToggleMap model)) = None
        \<and> findOwner model hitMesh (groupMembers (buildToggleMap model)) = Some g
        \<and> m \<in> set (groupMembers (buildToggleMap model)) \<longrightarrow>
        visible (snd (tryTogglePart rc model (buildToggleMap model) s)) m = (\<not> visible s g))
   \<and> (\<forall>hitMesh rest p m.
        rc (ray_test_visibility (buildToggleMap model) s)
           (collectMeshes (individuals (buildToggleMap model) @ groupMembers (buildToggleMap model)))
          = hitMesh # rest
        \<and> findOwner model hitMesh (individuals (buildToggleMap model)) = Some p
        \<and> m \<in> set (groupMembers (buildToggleMap model)) \<longrightarrow>
        visible (snd (tryTogglePart rc model (buildToggleMap model) s)) m = visible s m)"
proof (intro conjI)
  show "(\<forall>obj. visible s0 obj) \<longrightarrow>
      (\<forall>a \<in> set (groupMembers (buildToggleMap model)). \<forall>b \<in> set (groupMembers (buildToggleMap model)).
         visible (pointer_events evs model (buildToggleMap model) s0) a
         = visible (pointer_events evs model (buildToggleMap model) s0) b)"
  proof
    assume "\<forall>obj. visible s0 obj"
    then have "group_uniform (buildToggleMap model) (visible s0)"
      by (simp add: group_uniform_def)
    from pointer_events_group_uniform [OF buildToggleMap_disjoint this]
    show "\<forall>a \<in> set (groupMembers (buildToggleMap model)). \<forall>b \<in> set (groupMembers (buildToggleMap model)).
         visible (pointer_events evs model (buildToggleMap model) s0) a
         = visible (pointer_events evs model (buildToggleMap model) s0) b"
      by (simp only: group_uniform_def)
  qed
next
  show "\<forall>hitMesh rest g m.
        rc (ray_test_visibility (buildToggleMap model) s)
           (collectMeshes (individuals (buildToggleMap model) @ groupMembers (buildToggleMap model)))
          = hitMesh # rest
        \<and> findOwner model hitMesh (individuals (buildToggleMap model)) = None
        \<and> findOwner model hitMesh (groupMembers (buildToggleMap model)) = Some g
        \<and> m \<in> set (groupMembers (buildToggleMap model)) \<longrightarrow>
        visible (snd (tryTogglePart rc model (buildToggleMap model) s)) m = (\<not> visible s g)"
    by (intro allI impI) (elim conjE, rule toggle_group_assigns_all [where rc = rc])
next
  show "\<forall>hitMesh rest p m.
        rc (ray_test_visibility (buildToggleMap model) s)
           (collectMeshes (individuals (buildToggleMap model) @ groupMembers (buildToggleMap model)))
          = hitMesh # rest
        \<and> findOwner model hitMesh (individuals (buildToggleMap model)) = Some p
        \<and> m \<in> set (groupMembers (buildToggleMap model)) \<longrightarrow>
        visible (snd (tryTogglePart rc model (buildToggleMap model) s)) m = visible s m"
    by (intro allI impI)
       (elim conjE, rule toggle_individual_keeps_group [where rc = rc, OF buildToggleMap_disjoint])
qed

theorem group_members_share_visibility_witness:
  "visible (pointer_events [Click (ray_through [panelB_face]), Move (ray_through [solid2]),
                            Click (ray_through [solid2])]
               demo_model (buildToggleMap demo_model) initial_state) panelA
   = visible (pointer_events [Click (ray_through [panelB_face]), Move (ray_through [solid2]),
                              Click (ray_through [solid2])]
               demo_model (buildToggleMap demo_model) initial_state) panelB
   \<and> \<not> visible (snd (tryTogglePart (ray_through [panelB_face]) demo_model (buildToggleMap demo_model)
                        initial_state)) panelA"
proof -
  let ?tm = "buildToggleMap demo_model"
  let ?rc = "ray_through [panelB_face]"
  have init: "\<forall>obj. visible initial_state obj"
    by (simp add: initial_state_def)
  have mem: "panelA \<in> set (groupMembers ?tm)" "panelB \<in> set (groupMembers ?tm)"
    by (simp_all add: buildToggleMap_demo)
  have rt: "ray_test_visibility ?tm initial_state = (\<lambda>obj. True)"
    by (simp add: ray_test_visibility_def buildToggleMap_demo initial_state_def)
  have hits: "?rc (ray_test_visibility ?tm initial_state)
                (collectMeshes (individuals ?tm @ groupMembers ?tm)) = panelB_face # []"
    by (simp add: ray_through_def buildToggleMap_demo collectMeshes_demo)
  have o1: "findOwner demo_model panelB_face (individuals ?tm) = None"
    by (simp add: findOwner_def buildToggleMap_demo parent_chain_panelB_face)
       (simp add: demo_model_def solid2_def panelB_def panelB_face_def)
  have o2: "findOwner demo_model panelB_face (groupMembers ?tm) = Some panelB"
    by (simp add: findOwner_def buildToggleMap_demo parent_chain_panelB_face)
       (simp add: panelA_def panelB_def panelB_face_def)
  note inst = group_members_share_visibility
               [of initial_state demo_model
                   "[Click (ray_through [panelB_face]), Move (ray_through [solid2]),
                     Click (ray_through [solid2])]" ?rc initial_state]
  from inst init mem have share:
    "visible (pointer_events [Click (ray_through [panelB_face]), Move (ray_through [solid2]),
                            Click (ray_through [solid2])]
               demo_model ?tm initial_state) panelA
   = visible (pointer_events [Click (ray_through [panelB_face]), Move (ray_through [solid2]),
                              Click (ray_through [solid2])]
               demo_model ?tm initial_state) panelB"
    by blast
  from inst hits o1 o2 mem(1) have
    "visible (snd (tryTogglePart ?rc demo_model ?tm initial_state)) panelA
       = (\<not> visible initial_state panelB)"
    by blast
  with init share show ?thesis by simp
qed

lemma setGroupEmissive_solid2: "setGroupEmissive [solid2] color em = em(1 := color)"
  by (simp add: setGroupEmissive_def solid2_def)

lemma hovering_solid2_eval:
  "hovering_solid2 = initial_state\<lparr> emissive := (emissive initial_state)(1 := highlightEmissive),
                                     hoveredGroup := Some (Single solid2), cursor := ''pointer'' \<rparr>"
  by (simp add: hovering_solid2_def mousemove_def buildToggleMap_demo initial_state_def
                collectMeshes_demo ray_through_def getToggleGroup_def findOwner_def
                parent_chain_solid2 setGroupEmissive_solid2)

text \<open>
  Claim C1, as amended.  At a pointer position whose ray hits nothing, \<open>tryTogglePart\<close>
  returns false and leaves the whole state as it was.  A hover update there leaves every
  visibility flag unchanged and leaves the state unchanged when no group was hovered;
  when a group was hovered it gives the meshes of that group the default emissive colour
  and clears \<open>hoveredGroup\<close>.  A second hover update at such a position changes
  nothing.
\<close>

theorem no_hit_pointer_events:
  assumes click_miss: "rc (ray_test_visibility tm s) (collectMeshes (individuals tm @ groupMembers tm)) = []"
      and hover_miss: "rc (visible s) (collectMeshes (filter (visible s) (individuals tm @ groupMembers tm))) = []"
  shows "tryTogglePart rc model tm s = (False, s)
     \<and> visible (mousemove rc model tm s) = visible s
     \<and> (hoveredGroup s = None \<longrightarrow> mousemove rc model tm s = s)
     \<and> hoveredGroup (mousemove rc model tm s) = None
     \<and> emissive (mousemove rc model tm s) =
          (case hoveredGroup s of
             None \<Rightarrow> emissive s
           | Some g \<Rightarrow> setGroupEmissive (group_objects tm g) defaultEmissive (emissive s))
     \<and> mousemove rc model tm (mousemove rc model tm s) = mousemove rc model tm s"
proof -
  have click: "tryTogglePart rc model tm s = (False, s)"
    using click_miss by (simp add: tryTogglePart_restored)
  have mm: "mousemove rc model tm s =
              (case hoveredGroup s of
                 None \<Rightarrow> s
               | Some g \<Rightarrow> s\<lparr> emissive := setGroupEmissive (group_objects tm g) defaultEmissive (emissive s),
                               hoveredGroup := None, cursor := [] \<rparr>)"
    using hover_miss by (cases "hoveredGroup s") (simp_all add: mousemove_def)
  have vis: "visible (mousemove rc model tm s) = visible s"
    by (simp add: visible_mousemove)
  have hg: "hoveredGroup (mousemove rc model tm s) = None"
    by (simp add: mm split: option.splits)
  have again: "mousemove rc model tm (mousemove rc model tm s) = mousemove rc model tm s"
    using hover_miss hg by (simp add: mousemove_def [of rc model tm "mousemove rc model tm s"] vis)
  show ?thesis
    using click vis hg again by (simp add: mm split: option.splits)
qed

text \<open>
  The claim C1 as stated fails: with the individual part hovered (and so highlighted), a
  pointer move whose ray hits nothing changes the emissive colour of its material from the
  highlight colour back to the default.
\<close>

theorem hover_miss_clears_highlight:
  "ray_through [] (visible hovering_solid2)
      (collectMeshes (filter (visible hovering_solid2)
         (individuals (buildToggleMap demo_model) @ groupMembers (buildToggleMap demo_model)))) = []
   \<and> emissive hovering_solid2 1 = highlightEmissive
   \<and> emissive (mousemove (ray_through []) demo_model (buildToggleMap demo_model) hovering_solid2) 1
       = defaultEmissive
   \<and> emissive (mousemove (ray_through []) demo_model (buildToggleMap demo_model) hovering_solid2)
       \<noteq> emissive hovering_solid2"
proof -
  have a: "emissive hovering_solid2 1 = highlightEmissive"
    by (simp add: hovering_solid2_eval)
  have b: "emissive (mousemove (ray_through []) demo_model (buildToggleMap demo_model) hovering_solid2) 1
       = defaultEmissive"
    by (simp add: mousemove_def ray_through_def hovering_solid2_eval setGroupEmissive_solid2)
  have "highlightEmissive \<noteq> defaultEmissive"
    by (simp add: highlightEmissive_def defaultEmissive_def)
  with a b have "emissive (mousemove (ray_through []) demo_model (buildToggleMap demo_model) hovering_solid2)
       \<noteq> emissive hovering_solid2" by metis
  with a b show ?thesis by (simp add: ray_through_def)
qed

theorem no_hit_pointer_events_witness:
  "tryTogglePart (ray_through [fan]) demo_model (buildToggleMap demo_model) hovering_solid2
     = (False, hovering_solid2)
   \<and> hoveredGroup (mousemove (ray_through [fan]) demo_model (buildToggleMap demo_model) hovering_solid2)
       = None
   \<and> visible (mousemove (ray_through [fan]) demo_model (buildToggleMap demo_model) hovering_solid2)
       = visible hovering_solid2"
proof -
  let ?tm = "buildToggleMap demo_model"
  have fan: "fan \<noteq> solid2" "fan \<noteq> panelA" "fan \<noteq> panelB_face"
    by (simp_all add: fan_def solid2_def panelA_def panelB_face_def)
  have vis: "visible hovering_solid2 = (\<lambda>obj. True)"
    by (simp add: hovering_solid2_eval initial_state_def)
  have h1: "ray_through [fan] (ray_test_visibility ?tm hovering_solid2)
              (collectMeshes (individuals ?tm @ groupMembers ?tm)) = []"
    by (simp add: ray_through_def buildToggleMap_demo collectMeshes_demo fan)
  have h2: "ray_through [fan] (visible hovering_solid2)
              (collectMeshes (filter (visible hovering_solid2) (individuals ?tm @ groupMembers ?tm))) = []"
    by (simp add: ray_through_def buildToggleMap_demo vis collectMeshes_demo fan)
  from no_hit_pointer_events [of "ray_through [fan]" ?tm hovering_solid2 demo_model, OF h1 h2]
  show ?thesis by simp
qed

section \<open>Properties of the hotspot annotations and the explode key\<close>

lemma fold_first_match:
  "fold (\<lambda>child target. if target = None \<and> P child then Some child else target) xs acc
     = (case acc of Some a \<Rightarrow> Some a | None \<Rightarrow> find P xs)"
  by (induction xs arbitrary: acc) (auto split: option.splits)

lemma exact_match_find: "exact_match model m = find (\<lambda>child. name child = m) (traverse model)"
  unfolding exact_match_def by (simp add: fold_first_match)

lemma includes_match_find:
  "includes_match model m
     = find (\<lambda>child. name child \<noteq> [] \<and> str_includes (name child) m) (traverse model)"
  unfolding includes_match_def
  using fold_first_match [of "\<lambda>child. name child \<noteq> [] \<and> str_includes (name child) m" "traverse model" None]
  by simp

lemma resolve_target_find:
  "resolve_target model m =
     (case find (\<lambda>child. name child = m) (traverse model) of
        Some target \<Rightarrow> Some target
      | None \<Rightarrow> find (\<lambda>child. name child \<noteq> [] \<and> str_includes (name child) m) (traverse model))"
  by (simp add: resolve_target_def exact_match_find includes_match_find split: option.splits)

lemma initHotspots_fold:
  "fold (\<lambda>hs hotspotInstances.
             case resolve_target model (match hs) of
               None \<Rightarrow> hotspotInstances
             | Some target \<Rightarrow> hotspotInstances @ [new_instance hs target])
          hss acc
   = acc @ map (\<lambda>hs. new_instance hs (the (resolve_target model (match hs))))
             (filter (\<lambda>hs. resolve_target model (match hs) \<noteq> None) hss)"
  by (induction hss arbitrary: acc) (auto split: option.splits)

lemma initHotspots_map:
  "initHotspots hss model
   = map (\<lambda>hs. new_instance hs (the (resolve_target model (match hs))))
         (filter (\<lambda>hs. resolve_target model (match hs) \<noteq> None) hss)"
  by (simp add: initHotspots_def initHotspots_fold)

lemma exact_first:
  assumes "c \<in> set (traverse model)" "name c = m"
  shows "\<exists>i < length (traverse model).
           resolve_target model m = Some (traverse model ! i) \<and> name (traverse model ! i) = m
           \<and> (\<forall>j < i. name (traverse model ! j) \<noteq> m)"
proof -
  from assms obtain t where t: "find (\<lambda>child. name child = m) (traverse model) = Some t"
    by (cases "find (\<lambda>child. name child = m) (traverse model)") (auto simp: find_None_iff)
  then obtain i where "i < length (traverse model)" "name (traverse model ! i) = m"
      "t = traverse model ! i" "\<forall>j < i. name (traverse model ! j) \<noteq> m"
    by (auto simp: find_Some_iff)
  with t show ?thesis by (auto simp: resolve_target_find)
qed

lemma includes_fallback:
  assumes "\<forall>c \<in> set (traverse model). name c \<noteq> m"
  shows "resolve_target model m
           = find (\<lambda>child. name child \<noteq> [] \<and> str_includes (name child) m) (traverse model)"
proof -
  from assms have "find (\<lambda>child. name child = m) (traverse model) = None"
    by (simp add: find_None_iff)
  then show ?thesis by (simp add: resolve_target_find)
qed

text \<open>
  Claim C8.  The anchor of a hotspot is looked up by name over the whole traversal first:
  when some node carries exactly the token as its name, the target is the first such node
  in traversal order, whatever other names contain the token.  Only when no node has
  exactly that name is the target the first node in traversal order whose (non-empty)
  name contains the token.  Descriptors without a target are left out and the others are
  kept in their order, each instance starting closed.  In the model with a node named
  \<open>RTX 5090\<close> behind a node named \<open>RTX 5090 bracket\<close>, the token \<open>RTX 5090\<close>
  resolves to the former, where the substring search alone would have taken the latter.
\<close>

theorem hotspot_anchor_resolution:
  "((\<exists>c \<in> set (traverse model). name c = m) \<longrightarrow>
      (\<exists>i < length (traverse model).
          resolve_target model m = Some (traverse model ! i) \<and> name (traverse model ! i) = m
          \<and> (\<forall>j < i. name (traverse model ! j) \<noteq> m)))
   \<and> ((\<forall>c \<in> set (traverse model). name c \<noteq> m) \<longrightarrow>
        resolve_target model m
          = find (\<lambda>child. name child \<noteq> [] \<and> str_includes (name child) m) (traverse model))
   \<and> map data (initHotspots hss model)
        = filter (\<lambda>hs. resolve_target model (match hs) \<noteq> None) hss
   \<and> (\<forall>inst \<in> set (initHotspots hss model).
         resolve_target model (match (data inst)) = Some (object inst) \<and> \<not> open inst
         \<and> \<not> tag_visible inst)"
proof (intro conjI)
  show "(\<exists>c \<in> set (traverse model). name c = m) \<longrightarrow>
      (\<exists>i < length (traverse model).
          resolve_target model m = Some (traverse model ! i) \<and> name (traverse model ! i) = m
          \<and> (\<forall>j < i. name (traverse model ! j) \<noteq> m))"
    using exact_first by blast
  show "(\<forall>c \<in> set (traverse model). name c \<noteq> m) \<longrightarrow>
        resolve_target model m
          = find (\<lambda>child. name child \<noteq> [] \<and> str_includes (name child) m) (traverse model)"
    using includes_fallback by blast
  show "map data (initHotspots hss model)
        = filter (\<lambda>hs. resolve_target model (match hs) \<noteq> None) hss"
    by (simp add: initHotspots_map new_instance_def comp_def)
  show "\<forall>inst \<in> set (initHotspots hss model).
         resolve_target model (match (data inst)) = Some (object inst) \<and> \<not> open inst
         \<and> \<not> tag_visible inst"
    by (auto simp: initHotspots_map new_instance_def)
qed

lemma traverse_gpu_model:
  "traverse gpu_model
     = [gpu_model, gpu_bracket, gpu, Object3D 13 ''RTX 5090 cover'' True (Some 4) [], psu]"
  by (simp add: gpu_model_def gpu_bracket_def gpu_def psu_def)

lemma names_gpu_model:
  "name gpu_model = ''assembly''" "name gpu_bracket = ''RTX 5090 bracket''"
  "name gpu = ''RTX 5090''" "name psu = ''SF1000_simplified_v2''"
  by (simp_all add: gpu_model_def gpu_bracket_def gpu_def psu_def)

theorem hotspot_anchor_resolution_witness:
  "resolve_target gpu_model ''RTX 5090'' = Some gpu
   \<and> includes_match gpu_model ''RTX 5090'' = Some gpu_bracket
   \<and> resolve_target gpu_model ''SF1000_simplified'' = Some psu
   \<and> map title (map data (initHotspots HOTSPOTS gpu_model)) = [''GPU'', ''PSU'']"
proof -
  note inst = hotspot_anchor_resolution [of gpu_model "''RTX 5090''" HOTSPOTS]
  have ex: "\<exists>c \<in> set (traverse gpu_model). name c = ''RTX 5090''"
    by (simp add: traverse_gpu_model names_gpu_model)
  with inst obtain i where i: "i < length (traverse gpu_model)"
      "resolve_target gpu_model ''RTX 5090'' = Some (traverse gpu_model ! i)"
      "name (traverse gpu_model ! i) = ''RTX 5090''"
    by blast
  from i(1) have "i \<in> {0, 1, 2, 3, 4}" by (auto simp: traverse_gpu_model)
  with i(3) have "i = 2"
    by (auto simp: traverse_gpu_model names_gpu_model)
  with i(2) have a: "resolve_target gpu_model ''RTX 5090'' = Some gpu"
    by (simp add: traverse_gpu_model)
  have b: "includes_match gpu_model ''RTX 5090'' = Some gpu_bracket"
    by (simp add: includes_match_find traverse_gpu_model names_gpu_model)
  have c: "resolve_target gpu_model ''SF1000_simplified'' = Some psu"
    by (simp add: resolve_target_find traverse_gpu_model names_gpu_model)
  have d: "filter (\<lambda>hs. resolve_target gpu_model (match hs) \<noteq> None) HOTSPOTS
             = [\<lparr> match = ''RTX 5090'', title = ''GPU'', desc = ''RTX 5090 Inno3D iChill'' \<rparr>,
                \<lparr> match = ''SF1000_simplified'', title = ''PSU'', desc = ''Corsair SF1000'' \<rparr>]"
    by (simp add: HOTSPOTS_def resolve_target_find traverse_gpu_model names_gpu_model)
  from inst d have "map title (map data (initHotspots HOTSPOTS gpu_model)) = [''GPU'', ''PSU'']"
    by simp
  with a b c show ?thesis by simp
qed

lemma keydown_explode:
  assumes "key = ''e'' \<or> key = ''E''"
  shows "keydown key s =
           s\<lparr> exploded := \<not> exploded s,
              hotspotInstances :=
                map (\<lambda>inst. inst\<lparr> open := \<not> exploded s, tag_visible := \<not> exploded s \<rparr>)
                    (hotspotInstances s) \<rparr>"
  using assms by (auto simp: keydown_def Let_def)

text \<open>
  Claim C10.  The keys \<open>e\<close> and \<open>E\<close> flip the \<open>exploded\<close> flag and give every hotspot
  instance the new value of the flag both as its \<open>open\<close> flag and as the visibility of
  its card, whatever the instance's state was; the instances themselves (descriptor and
  anchor) stay the same.
\<close>

theorem explode_key_overwrites_open_flags:
  assumes "key = ''e'' \<or> key = ''E''"
  shows "exploded (keydown key s) = (\<not> exploded s)
     \<and> (\<forall>inst \<in> set (hotspotInstances (keydown key s)).
           open inst = (\<not> exploded s) \<and> tag_visible inst = (\<not> exploded s))
     \<and> map data (hotspotInstances (keydown key s)) = map data (hotspotInstances s)
     \<and> map object (hotspotInstances (keydown key s)) = map object (hotspotInstances s)"
  by (auto simp: keydown_explode [OF assms] comp_def)

theorem explode_key_overwrites_open_flags_witness:
  "map open (hotspotInstances demo_viewer) = [True, False]
   \<and> map open (hotspotInstances (keydown ''e'' demo_viewer)) = [True, True]
   \<and> map open (hotspotInstances (keydown ''E'' (keydown ''e'' demo_viewer))) = [False, False]
   \<and> exploded (keydown ''e'' demo_viewer)
   \<and> \<not> exploded (keydown ''E'' (keydown ''e'' demo_viewer))"
proof -
  have k: "''e'' = ''e'' \<or> ''e'' = ''E''" "''E'' = ''e'' \<or> ''E'' = ''E''" by simp_all
  have len: "length (hotspotInstances s) = 2 \<Longrightarrow> \<forall>inst \<in> set (hotspotInstances s). open inst = b
             \<Longrightarrow> map open (hotspotInstances s) = [b, b]" for s :: viewer and b
    by (cases "hotspotInstances s"; cases "tl (hotspotInstances s)") auto
  note first = explode_key_overwrites_open_flags [OF k(1), of demo_viewer]
  note second = explode_key_overwrites_open_flags [OF k(2), of "keydown ''e'' demo_viewer"]
  have l0: "length (hotspotInstances demo_viewer) = 2"
    by (simp add: demo_viewer_def two_hotspots_def)
  from first have l1: "length (hotspotInstances (keydown ''e'' demo_viewer)) = 2"
    using l0 by (metis length_map)
  from second have l2: "length (hotspotInstances (keydown ''E'' (keydown ''e'' demo_viewer))) = 2"
    using l1 by (metis length_map)
  have e0: "\<not> exploded demo_viewer" by (simp add: demo_viewer_def)
  from first e0 have e1: "exploded (keydown ''e'' demo_viewer)" by simp
  from second e1 have e2: "\<not> exploded (keydown ''E'' (keydown ''e'' demo_viewer))" by simp
  from first e0 have "\<forall>inst \<in> set (hotspotInstances (keydown ''e'' demo_viewer)). open inst = True"
    by simp
  from len [OF l1 this] have a: "map open (hotspotInstances (keydown ''e'' demo_viewer)) = [True, True]" .
  from second e1 have
    "\<forall>inst \<in> set (hotspotInstances (keydown ''E'' (keydown ''e'' demo_viewer))). open inst = False"
    by simp
  from len [OF l2 this] have b:
    "map open (hotspotInstances (keydown ''E'' (keydown ''e'' demo_viewer))) = [False, False]" .
  have c: "map open (hotspotInstances demo_viewer) = [True, False]"
    by (simp add: demo_viewer_def two_hotspots_def new_instance_def)
  from a b c e1 e2 show ?thesis by simp
qed

section \<open>Properties of the explode view\<close>



































section \<open>Properties of a hotspot behind the camera\<close>



lemma projected_z_behind_orthographic:
  assumes "depth < 0"
  shows "projected_z Orthographic (1 / 100) 100 depth < - 1"
  using assms by (simp add: field_simps)















section \<open>Properties of the context transitions\<close>

lemma wheel_400: "wheel (length contexts) 400 0 = 1"
  by (simp add: wheel_def contexts_def SCROLL_PER_CONTEXT_def)

text \<open>
  Claim C2, as amended.  With the ten presets, a wheel event with \<open>deltaY = 400\<close> at
  position 0 gives position exactly 1.  In the next frame \<open>fromIdx\<close> is 1, \<open>toIdx\<close> is 2
  and the progress is 0; as the progress is not above 0.001 the frame takes the settled
  branch: preset 1 is applied and the composer renders, with no rendering into the two
  offscreen targets and no wipe.
\<close>

theorem scroll_one_context_settles:
  "wheel (length contexts) 400 0 = 1
   \<and> fromIdx (wheel (length contexts) 400 0) = 1
   \<and> toIdx (length contexts) (wheel (length contexts) 400 0) = 2
   \<and> progress (wheel (length contexts) 400 0) = 0
   \<and> animate (length contexts) wipeDirection (wheel (length contexts) 400 0)
       = [UpdateDots 1, ApplyContextNow 1, ComposerRender]"
  unfolding wheel_400 by (simp add: fromIdx_def toIdx_def progress_def animate_def contexts_def)

text \<open>
  The claim C2 as stated fails in one point: in that frame \<open>fromIdx\<close> and \<open>toIdx\<close> are
  1 and 2, not equal.
\<close>

theorem settled_frame_has_distinct_indices:
  "fromIdx (wheel (length contexts) 400 0) = 1
   \<and> toIdx (length contexts) (wheel (length contexts) 400 0) = 2
   \<and> fromIdx (wheel (length contexts) 400 0) \<noteq> toIdx (length contexts) (wheel (length contexts) 400 0)"
  unfolding wheel_400 by (simp add: fromIdx_def toIdx_def contexts_def)

lemma wheel_in_range:
  assumes "1 \<le> n"
  shows "0 \<le> wheel n deltaY pos \<and> wheel n deltaY pos \<le> real n - 1"
  using assms by (simp add: wheel_def Let_def)

lemma handle_input_in_range:
  assumes "1 \<le> n" and "case inp of Wheel d \<Rightarrow> True | DotClick i \<Rightarrow> i < n"
  shows "\<exists>p. handle_input n inp pos = Some p \<and> 0 \<le> p \<and> p \<le> real n - 1"
proof (cases inp)
  case (Wheel d)
  with wheel_in_range [OF assms(1)] show ?thesis by simp
next
  case (DotClick i)
  with assms(2) have "i < n" by simp
  then have "real i \<le> real n - 1" by (simp add: of_nat_diff Suc_leI flip: of_nat_Suc) 
  with DotClick \<open>i < n\<close> show ?thesis by simp
qed

lemma scroll_inputs_in_range:
  assumes "1 \<le> n"
  shows "0 \<le> pos \<Longrightarrow> pos \<le> real n - 1 \<Longrightarrow>
         \<forall>inp \<in> set inps. (case inp of Wheel d \<Rightarrow> True | DotClick i \<Rightarrow> i < n) \<Longrightarrow>
         \<exists>p. scroll_inputs n inps pos = Some p \<and> 0 \<le> p \<and> p \<le> real n - 1"
proof (induction inps arbitrary: pos)
  case Nil
  then show ?case by simp
next
  case (Cons inp inps)
  from Cons.prems(3) have "case inp of Wheel d \<Rightarrow> True | DotClick i \<Rightarrow> i < n" by simp
  from handle_input_in_range [OF assms this] obtain p where
    p: "handle_input n inp pos = Some p" "0 \<le> p" "p \<le> real n - 1" by blast
  from Cons.prems(3) have "\<forall>inp \<in> set inps. (case inp of Wheel d \<Rightarrow> True | DotClick i \<Rightarrow> i < n)"
    by simp
  from Cons.IH [OF p(2) p(3) this] p(1) show ?case by simp
qed

text \<open>
  Claim C7.  With at least one preset, starting from a position between 0 and \<open>n - 1\<close>,
  every sequence of wheel events (with any \<open>deltaY\<close>) and clicks on existing dots is
  accepted and leaves the position between 0 and \<open>n - 1\<close>.  A wheel event gives the sum
  clamped into that range, and a click on dot \<open>i\<close> gives exactly \<open>i\<close>.
\<close>

theorem scroll_position_stays_in_range:
  assumes "1 \<le> n" and "0 \<le> pos" and "pos \<le> real n - 1"
    and "\<forall>inp \<in> set inps. (case inp of Wheel d \<Rightarrow> True | DotClick i \<Rightarrow> i < n)"
  shows "(\<exists>p. scroll_inputs n inps pos = Some p \<and> 0 \<le> p \<and> p \<le> real n - 1)
     \<and> 0 \<le> wheel n deltaY pos \<and> wheel n deltaY pos \<le> real n - 1
     \<and> wheel n deltaY pos = max 0 (min (real n - 1) (pos + deltaY / 400))
     \<and> (\<forall>i < n. handle_input n (DotClick i) pos = Some (real i) \<and> 0 \<le> real i \<and> real i \<le> real n - 1)"
proof -
  have "\<forall>i < n. real i \<le> real n - 1"
    by (auto simp: of_nat_diff Suc_leI simp flip: of_nat_Suc)
  with scroll_inputs_in_range [OF assms] wheel_in_range [OF assms(1), of deltaY pos]
  show ?thesis by (simp add: wheel_def SCROLL_PER_CONTEXT_def)
qed

theorem scroll_position_stays_in_range_witness:
  "scroll_inputs (length contexts) [Wheel 1000000, DotClick 9, Wheel 400, Wheel (- 1000000), DotClick 3] 0
     = Some 3
   \<and> wheel (length contexts) 1000000 0 = 9
   \<and> wheel (length contexts) (- 1000000) 9 = 0"
proof -
  have n: "1 \<le> length contexts" by (simp add: contexts_def)
  have wf: "\<forall>inp \<in> set [Wheel 1000000, DotClick 9, Wheel 400, Wheel (- 1000000), DotClick 3].
              (case inp of Wheel d \<Rightarrow> True | DotClick i \<Rightarrow> i < length contexts)"
    by (simp add: contexts_def)
  have r: "(0::real) \<le> 0" "0 \<le> real (length contexts) - 1" by (simp_all add: contexts_def)
  from scroll_position_stays_in_range [OF n r wf, of 1000000]
  have a: "wheel (length contexts) 1000000 0 = max 0 (min (real (length contexts) - 1) (0 + 1000000 / 400))"
    by blast
  have b: "wheel (length contexts) (- 1000000) 9 = 0"
    by (simp add: wheel_def contexts_def SCROLL_PER_CONTEXT_def)
  have c: "scroll_inputs (length contexts)
             [Wheel 1000000, DotClick 9, Wheel 400, Wheel (- 1000000), DotClick 3] 0 = Some 3"
    by (simp add: wheel_def contexts_def SCROLL_PER_CONTEXT_def)
  from a b c show ?thesis by (simp add: contexts_def)
qed


end
